theory Spec2Isabelle
  imports Main "HOL-Library.Sublist"
begin

section \<open>Rate limiter (\<^verbatim>\<open>_shared/rate-limiter.ts\<close>)\<close>

text \<open>
  The module the handlers import as \<^verbatim>\<open>../_shared/rate-limiter.ts\<close>; its text is the second
  document of \<^verbatim>\<open>src/supabase/functions/create-branch/index.ts\<close>.

  JavaScript numbers are doubles; the values handled here (a request counter, millisecond
  timestamps from \<^verbatim>\<open>Date.now()\<close>) are integers far below \<open>2^53\<close>, where double
  arithmetic is exact, so they are modelled as \<^typ>\<open>int\<close>.
\<close>

record RateLimitConfig =
  maxRequests :: int
  windowMs :: int

text \<open>The value type of the \<^verbatim>\<open>requestCounts\<close> map: \<^verbatim>\<open>{ count: number; resetAt: number }\<close>.\<close>

record userData =
  count :: int
  resetAt :: int

type_synonym requestCounts = "string \<rightharpoonup> userData"

text \<open>
  The object returned by \<^verbatim>\<open>checkRateLimit\<close>. Its third field is called \<^verbatim>\<open>resetAt\<close> in
  the source as well; it is named \<open>windowResetAt\<close> here to keep it apart from the field of
  the stored entry.
\<close>

record rateLimitResult =
  allowed :: bool
  remaining :: int
  windowResetAt :: int

definition DEFAULT_RATE_LIMIT :: RateLimitConfig where
  "DEFAULT_RATE_LIMIT = \<lparr>maxRequests = 100, windowMs = 60000\<rparr>"

text \<open>
  \<^verbatim>\<open>if (!userData || now >= userData.resetAt)\<close>: the entry the call continues with, before
  the increment. A stored entry is an object, hence truthy; only a missing key is falsy.
\<close>

definition currentWindow :: "requestCounts \<Rightarrow> int \<Rightarrow> string \<Rightarrow> RateLimitConfig \<Rightarrow> userData" where
  "currentWindow store now userId config =
     (case store userId of
        None \<Rightarrow> \<lparr>count = 0, resetAt = now + windowMs config\<rparr>
      | Some d \<Rightarrow>
          if now \<ge> resetAt d then \<lparr>count = 0, resetAt = now + windowMs config\<rparr> else d)"

text \<open>
  \<^verbatim>\<open>checkRateLimit(userId, config)\<close> with the global map and the clock made explicit. The
  entry is a shared object: \<^verbatim>\<open>userData.count++\<close> changes the entry held by the map, in the
  fresh case (after \<^verbatim>\<open>requestCounts.set\<close>) and in the reused one alike.
\<close>

definition checkRateLimit ::
  "requestCounts \<Rightarrow> int \<Rightarrow> string \<Rightarrow> RateLimitConfig \<Rightarrow> rateLimitResult \<times> requestCounts" where
  "checkRateLimit store now userId config =
     (let d = currentWindow store now userId config;
          d' = d\<lparr>count := count d + 1\<rparr>
      in (\<lparr>allowed = (count d' \<le> maxRequests config),
           remaining = max 0 (maxRequests config - count d'),
           windowResetAt = resetAt d'\<rparr>,
          store(userId \<mapsto> d')))"

text \<open>\<^verbatim>\<open>cleanupRateLimitStore()\<close>: deletes every entry whose window has expired.\<close>

definition cleanupRateLimitStore :: "requestCounts \<Rightarrow> int \<Rightarrow> requestCounts" where
  "cleanupRateLimitStore store now =
     (\<lambda>k. case store k of
            None \<Rightarrow> None
          | Some d \<Rightarrow> if now \<ge> resetAt d then None else Some d)"

text \<open>
  \<^verbatim>\<open>getRateLimitHeaders(result, config)\<close>. The header values are the decimal renderings of
  the numbers given here; \<^verbatim>\<open>Math.ceil(resetAt / 1000)\<close> is a ceiling division.
\<close>

definition getRateLimitHeaders :: "rateLimitResult \<Rightarrow> RateLimitConfig \<Rightarrow> (string \<times> int) list" where
  "getRateLimitHeaders result config =
     [(''X-RateLimit-Limit'', maxRequests config),
      (''X-RateLimit-Remaining'', remaining result),
      (''X-RateLimit-Reset'', - ((- windowResetAt result) div 1000))]"

text \<open>
  A run of calls by one identity, at the given clock readings, in order: the results of
  the calls and the map afterwards.
\<close>

fun checkRateLimitSeq ::
  "requestCounts \<Rightarrow> string \<Rightarrow> RateLimitConfig \<Rightarrow> int list \<Rightarrow> rateLimitResult list \<times> requestCounts" where
  "checkRateLimitSeq store userId config [] = ([], store)"
| "checkRateLimitSeq store userId config (now # rest) =
     (let (r, store') = checkRateLimit store now userId config;
          (rs, store'') = checkRateLimitSeq store' userId config rest
      in (r # rs, store''))"

text \<open>
  Every entry the limiter ever stores has been incremented at least once. The map starts
  empty and only \<^verbatim>\<open>checkRateLimit\<close> and the cleanup touch it.
\<close>

definition counted :: "requestCounts \<Rightarrow> bool" where
  "counted store \<longleftrightarrow> (\<forall>k d. store k = Some d \<longrightarrow> 1 \<le> count d)"

section \<open>Upstream error sanitizer (\<^verbatim>\<open>_shared/error-sanitizer.ts\<close>)\<close>

record SanitizedError =
  httpStatus :: int
  message :: string

text \<open>
  Modelled from the spec: \<^verbatim>\<open>sanitizeGitHubError(status, rawBody)\<close> of
  \<^verbatim>\<open>_shared/error-sanitizer.ts\<close>, which the handlers import and whose source is not
  available. The spec gives the mapping: upstream 401/403 to outward 403 "insufficient
  permission"; 404 to outward 404 "not found"; 422 to outward 400 "invalid request"; 5xx or
  unmapped to outward 502 "upstream error".
\<close>

definition sanitizeGitHubError :: "int \<Rightarrow> string \<Rightarrow> SanitizedError" where
  "sanitizeGitHubError upstreamStatus rawBody =
     (if upstreamStatus = 401 \<or> upstreamStatus = 403
        then \<lparr>httpStatus = 403, message = ''insufficient permission''\<rparr>
      else if upstreamStatus = 404 then \<lparr>httpStatus = 404, message = ''not found''\<rparr>
      else if upstreamStatus = 422 then \<lparr>httpStatus = 400, message = ''invalid request''\<rparr>
      else \<lparr>httpStatus = 502, message = ''upstream error''\<rparr>)"

text \<open>
  Modelled from the spec: \<^verbatim>\<open>sanitizeGeneralError(error)\<close> of the same missing file. The spec
  says it "always collapses [local exceptions] to a generic message"; the wording of the
  message is not given and no property below depends on it.
\<close>

definition sanitizeGeneralError :: "string \<Rightarrow> string" where
  "sanitizeGeneralError thrown = ''internal error''"

section \<open>The handlers' surroundings\<close>

text \<open>
  An awaited call either rejects (with the message of what was thrown) or yields a value.
\<close>

datatype 'a outcome = Throws string | Returns 'a

text \<open>
  The verdict of \<^verbatim>\<open>schema.safeParse(body)\<close>. The zod library and the field validators of
  \<^verbatim>\<open>_shared/validation.ts\<close> are outside the sources, so the verdict is an input of the
  model: the list of messages, or the parsed fields.
\<close>

datatype 'a validation = Invalid "string list" | Valid 'a

record tokenParams =
  provider_token :: string

record repoParams = tokenParams +
  owner :: string
  repo :: string

record enableParams = repoParams +
  branch :: string
  path :: string

text \<open>The row selected from the \<^verbatim>\<open>profiles\<close> table.\<close>

record profileRow =
  github_username :: "string option"

text \<open>
  An upstream request as \<^verbatim>\<open>fetch\<close> receives it: the method, the URL, the bearer token of
  the \<^verbatim>\<open>Authorization\<close> header and, for the one POST, the \<^verbatim>\<open>source\<close> object of the body
  (branch and path). The other headers are constants.
\<close>

record ghRequest =
  req_method :: string
  req_url :: string
  req_token :: string
  req_source :: "(string \<times> string) option"

text \<open>The fields of the upstream replies that the handlers read.\<close>

record repoEntry =
  repo_name :: string

record pagesSource =
  source_branch :: "string option"
  source_path :: "string option"

record pagesInfo =
  html_url :: "string option"
  pages_status :: "string option"
  source :: "pagesSource option"
  built_at :: "string option"
  updated_at :: "string option"

datatype ghJson = RepoList "repoEntry list" | PagesInfo pagesInfo

text \<open>
  An upstream reply: the status, and what \<^verbatim>\<open>.text()\<close> and \<^verbatim>\<open>.json()\<close> give when awaited
  (\<open>Throws\<close> for a body that cannot be read or parsed).
\<close>

record ghResponse =
  gh_status :: int
  gh_text :: "string outcome"
  gh_json :: "ghJson outcome"

text \<open>\<^verbatim>\<open>response.ok\<close>: a status in the range 200 to 299.\<close>

definition ok :: "ghResponse \<Rightarrow> bool" where
  "ok r \<longleftrightarrow> 200 \<le> gh_status r \<and> gh_status r \<le> 299"

text \<open>
  Everything a handler run receives from outside: the HTTP method; the body after
  \<^verbatim>\<open>req.json()\<close> and \<^verbatim>\<open>safeParse\<close> (\<open>Throws\<close> when \<^verbatim>\<open>req.json()\<close> rejects); what
  \<^verbatim>\<open>supabase.auth.getUser()\<close> resolves to (the user id, or \<open>None\<close> for \<^verbatim>\<open>null\<close>; \<open>Throws\<close>
  also stands for a failing \<^verbatim>\<open>createClient\<close>, which runs just before); the reading of
  \<^verbatim>\<open>Date.now()\<close> inside the rate limiter; the profile query (\<open>None\<close> for a \<^verbatim>\<open>null\<close> row);
  and the upstream API. Within one run the upstream is a function from the request to the
  reply: a request repeated in the same run gets the same reply.
\<close>

record 'a request =
  http_method :: string
  parsed :: "'a validation outcome"
  user :: "string option outcome"
  clock :: int
  profile :: "profileRow option outcome"
  github :: "ghRequest \<Rightarrow> ghResponse outcome"

text \<open>The effects of a run that the properties below are about, in the order they happen.\<close>

datatype effect = RateCheck string | Fetch ghRequest

record siteSource =
  site_source_branch :: string
  site_source_path :: string

text \<open>\<^verbatim>\<open>interface PagesSite\<close>.\<close>

record PagesSite =
  site_repository :: string
  site_owner :: string
  site_branch :: string
  site_url :: string
  site_status :: string
  site_source :: siteSource
  site_updated_at :: "string option"

datatype responseBody =
    NoBody
  | ErrorBody string
  | InvalidInputBody "string list"
  | SitesBody "PagesSite list"
  | PagesDisabledBody
  | PagesEnabledBody "string option" "string option" "pagesSource option"
  | EnableSuccessBody "string option" "string option" string

text \<open>
  The handler's reply: status, the rate-limit headers when it sets them, and the JSON
  body. The CORS headers and the content type are the same on every reply and left out.
\<close>

record response =
  status :: int
  rateLimitHeaders :: "(string \<times> int) list"
  body :: responseBody

definition jsonResponse :: "int \<Rightarrow> responseBody \<Rightarrow> response" where
  "jsonResponse s b = \<lparr>status = s, rateLimitHeaders = [], body = b\<rparr>"

text \<open>The outer \<^verbatim>\<open>catch\<close> block shared by the three handlers.\<close>

definition internalError :: "string \<Rightarrow> response" where
  "internalError thrown = jsonResponse 500 (ErrorBody (sanitizeGeneralError thrown))"

definition rateLimitExceeded :: "rateLimitResult \<Rightarrow> response" where
  "rateLimitExceeded rl =
     \<lparr>status = 429,
      rateLimitHeaders = getRateLimitHeaders rl DEFAULT_RATE_LIMIT,
      body = ErrorBody ''Rate limit exceeded. Please try again later.''\<rparr>"

text \<open>
  \<^verbatim>\<open>profile?.github_username\<close> when it is truthy: a missing row, a \<^verbatim>\<open>null\<close> name and the
  empty string all count as no account name.
\<close>

definition accountName :: "profileRow option \<Rightarrow> string option" where
  "accountName p =
     (case p of
        None \<Rightarrow> None
      | Some row \<Rightarrow>
          (case github_username row of
             None \<Rightarrow> None
           | Some n \<Rightarrow> if n = [] then None else Some n))"

text \<open>\<^verbatim>\<open>a || b\<close> on an optional string: \<^verbatim>\<open>undefined\<close>, \<^verbatim>\<open>null\<close> and \<^verbatim>\<open>''\<close> are falsy.\<close>

definition orElse :: "string option \<Rightarrow> string \<Rightarrow> string" where
  "orElse a b = (case a of None \<Rightarrow> b | Some s \<Rightarrow> if s = [] then b else s)"

definition orElseOpt :: "string option \<Rightarrow> string option \<Rightarrow> string option" where
  "orElseOpt a b = (case a of None \<Rightarrow> b | Some s \<Rightarrow> if s = [] then b else Some s)"

section \<open>Fleet scan (\<^verbatim>\<open>list-pages-sites/index.ts\<close>)\<close>

definition reposRequest :: "string \<Rightarrow> ghRequest" where
  "reposRequest token =
     \<lparr>req_method = ''GET'',
      req_url = ''https://api.github.com/user/repos?per_page=100&affiliation=owner'',
      req_token = token,
      req_source = None\<rparr>"

text \<open>The read of one repository's Pages configuration, as all three handlers address it.\<close>

definition pagesUrl :: "string \<Rightarrow> string \<Rightarrow> string" where
  "pagesUrl ownerName repoName =
     ''https://api.github.com/repos/'' @ ownerName @ ''/'' @ repoName @ ''/pages''"

definition pagesRequest :: "string \<Rightarrow> string \<Rightarrow> string \<Rightarrow> ghRequest" where
  "pagesRequest ownerName repoName token =
     \<lparr>req_method = ''GET'',
      req_url = pagesUrl ownerName repoName,
      req_token = token,
      req_source = None\<rparr>"

text \<open>
  What the property reads of a parsed reply yield. A JSON array has none of the
  properties read, so each of them is \<^verbatim>\<open>undefined\<close>.
\<close>

definition asPagesInfo :: "ghJson \<Rightarrow> pagesInfo" where
  "asPagesInfo j =
     (case j of
        PagesInfo i \<Rightarrow> i
      | RepoList _ \<Rightarrow>
          \<lparr>html_url = None, pages_status = None, source = None,
           built_at = None, updated_at = None\<rparr>)"

text \<open>\<^verbatim>\<open>pagesInfo.source?.branch\<close> and \<^verbatim>\<open>pagesInfo.source?.path\<close>.\<close>

definition sourceBranchOf :: "pagesInfo \<Rightarrow> string option" where
  "sourceBranchOf i = (case source i of None \<Rightarrow> None | Some s \<Rightarrow> source_branch s)"

definition sourcePathOf :: "pagesInfo \<Rightarrow> string option" where
  "sourcePathOf i = (case source i of None \<Rightarrow> None | Some s \<Rightarrow> source_path s)"

text \<open>The object pushed onto \<^verbatim>\<open>livePagesSites\<close>.\<close>

definition toPagesSite :: "string \<Rightarrow> string \<Rightarrow> pagesInfo \<Rightarrow> PagesSite" where
  "toPagesSite username repoName i =
     \<lparr>site_repository = repoName,
      site_owner = username,
      site_branch = orElse (sourceBranchOf i) ''unknown'',
      site_url = orElse (html_url i) (''https://'' @ username @ ''.github.io/'' @ repoName),
      site_status = orElse (pages_status i) ''unknown'',
      site_source =
        \<lparr>site_source_branch = orElse (sourceBranchOf i) ''unknown'',
         site_source_path = orElse (sourcePathOf i) ''/''\<rparr>,
      site_updated_at = orElseOpt (built_at i) (updated_at i)\<rparr>"

text \<open>
  One pass through the body of the \<^verbatim>\<open>for\<close> loop, up to the push: the \<^verbatim>\<open>try\<close> block
  catches a rejected fetch and an unparsable body; a 404 reaches \<^verbatim>\<open>continue\<close>; any other
  status outside 200 to 299 falls through both \<^verbatim>\<open>if\<close>s. The three ways of leaving the
  body carry the names the spec gives them.
\<close>

datatype probeResult = Disabled | Enabled pagesInfo | ProbeError

definition probe ::
  "(ghRequest \<Rightarrow> ghResponse outcome) \<Rightarrow> string \<Rightarrow> string \<Rightarrow> string \<Rightarrow> probeResult" where
  "probe gh username repoName token =
     (case gh (pagesRequest username repoName token) of
        Throws e \<Rightarrow> ProbeError
      | Returns r \<Rightarrow>
          if gh_status r = 404 then Disabled
          else if ok r then
            (case gh_json r of
               Throws e \<Rightarrow> ProbeError
             | Returns j \<Rightarrow> Enabled (asPagesInfo j))
          else ProbeError)"

text \<open>
  The \<^verbatim>\<open>for (const repo of repos)\<close> loop: the sites collected so far are threaded
  through, and the requests sent are returned in order.
\<close>

fun probeAll ::
  "(ghRequest \<Rightarrow> ghResponse outcome) \<Rightarrow> string \<Rightarrow> string \<Rightarrow> repoEntry list \<Rightarrow> PagesSite list
     \<Rightarrow> PagesSite list \<times> ghRequest list" where
  "probeAll gh username token [] livePagesSites = (livePagesSites, [])"
| "probeAll gh username token (r # rest) livePagesSites =
     (let sent = pagesRequest username (repo_name r) token;
          livePagesSites' =
            (case probe gh username (repo_name r) token of
               Enabled i \<Rightarrow> livePagesSites @ [toPagesSite username (repo_name r) i]
             | Disabled \<Rightarrow> livePagesSites
             | ProbeError \<Rightarrow> livePagesSites);
          (sites, sents) = probeAll gh username token rest livePagesSites'
      in (sites, sent # sents))"

text \<open>
  The handler. Each early \<^verbatim>\<open>return\<close> is a branch; a rejected \<^verbatim>\<open>await\<close> outside the loop
  reaches the outer \<^verbatim>\<open>catch\<close>. A parsed listing that is not an array is not iterable, so
  the \<^verbatim>\<open>for\<close> statement throws. The result is the reply, the rate-limit map afterwards
  and the effects in order.
\<close>

definition listPagesSites ::
  "tokenParams request \<Rightarrow> requestCounts \<Rightarrow> response \<times> requestCounts \<times> effect list" where
  "listPagesSites req store =
     (if http_method req = ''OPTIONS'' then (jsonResponse 200 NoBody, store, [])
      else case parsed req of
        Throws e \<Rightarrow> (internalError e, store, [])
      | Returns (Invalid details) \<Rightarrow> (jsonResponse 400 (InvalidInputBody details), store, [])
      | Returns (Valid d) \<Rightarrow>
         (case user req of
            Throws e \<Rightarrow> (internalError e, store, [])
          | Returns None \<Rightarrow> (jsonResponse 401 (ErrorBody ''Unauthorized''), store, [])
          | Returns (Some uid) \<Rightarrow>
             (let (rl, store') = checkRateLimit store (clock req) uid DEFAULT_RATE_LIMIT
              in if \<not> allowed rl then (rateLimitExceeded rl, store', [RateCheck uid])
                 else case profile req of
                   Throws e \<Rightarrow> (internalError e, store', [RateCheck uid])
                 | Returns p \<Rightarrow>
                    (case accountName p of
                       None \<Rightarrow>
                         (jsonResponse 403 (ErrorBody ''GitHub profile not found''),
                          store', [RateCheck uid])
                     | Some username \<Rightarrow>
                        (let listing = reposRequest (provider_token d);
                             before = [RateCheck uid, Fetch listing]
                         in case github req listing of
                              Throws e \<Rightarrow> (internalError e, store', before)
                            | Returns reposResponse \<Rightarrow>
                               if \<not> ok reposResponse then
                                 (case gh_text reposResponse of
                                    Throws e \<Rightarrow> (internalError e, store', before)
                                  | Returns rawError \<Rightarrow>
                                     (let sanitized =
                                            sanitizeGitHubError (gh_status reposResponse) rawError
                                      in (jsonResponse (httpStatus sanitized)
                                            (ErrorBody (message sanitized)),
                                          store', before)))
                               else
                                 (case gh_json reposResponse of
                                    Throws e \<Rightarrow> (internalError e, store', before)
                                  | Returns (PagesInfo i) \<Rightarrow>
                                      (internalError ''repos is not iterable'', store', before)
                                  | Returns (RepoList repos) \<Rightarrow>
                                     (let (sites, sents) =
                                            probeAll (github req) username (provider_token d) repos []
                                      in (jsonResponse 200 (SitesBody sites), store',
                                          before @ map Fetch sents))))))))"

section \<open>Single-repository handlers\<close>

text \<open>\<^verbatim>\<open>get-pages-info/index.ts\<close>.\<close>

definition getPagesInfo ::
  "repoParams request \<Rightarrow> requestCounts \<Rightarrow> response \<times> requestCounts \<times> effect list" where
  "getPagesInfo req store =
     (if http_method req = ''OPTIONS'' then (jsonResponse 200 NoBody, store, [])
      else case parsed req of
        Throws e \<Rightarrow> (internalError e, store, [])
      | Returns (Invalid details) \<Rightarrow> (jsonResponse 400 (InvalidInputBody details), store, [])
      | Returns (Valid d) \<Rightarrow>
         (case user req of
            Throws e \<Rightarrow> (internalError e, store, [])
          | Returns None \<Rightarrow> (jsonResponse 401 (ErrorBody ''Unauthorized''), store, [])
          | Returns (Some uid) \<Rightarrow>
             (let (rl, store') = checkRateLimit store (clock req) uid DEFAULT_RATE_LIMIT
              in if \<not> allowed rl then (rateLimitExceeded rl, store', [RateCheck uid])
                 else case profile req of
                   Throws e \<Rightarrow> (internalError e, store', [RateCheck uid])
                 | Returns p \<Rightarrow>
                    (case accountName p of
                       None \<Rightarrow>
                         (jsonResponse 403 (ErrorBody ''GitHub profile not found''),
                          store', [RateCheck uid])
                     | Some username \<Rightarrow>
                        if owner d \<noteq> username then
                          (jsonResponse 403
                             (ErrorBody ''Unauthorized: can only access your own repositories''),
                           store', [RateCheck uid])
                        else
                          (let sent = pagesRequest (owner d) (repo d) (provider_token d);
                               effects = [RateCheck uid, Fetch sent]
                           in case github req sent of
                                Throws e \<Rightarrow> (internalError e, store', effects)
                              | Returns githubResponse \<Rightarrow>
                                 if gh_status githubResponse = 404 then
                                   (jsonResponse 200 PagesDisabledBody, store', effects)
                                 else if \<not> ok githubResponse then
                                   (case gh_text githubResponse of
                                      Throws e \<Rightarrow> (internalError e, store', effects)
                                    | Returns rawError \<Rightarrow>
                                       (let sanitized =
                                              sanitizeGitHubError (gh_status githubResponse) rawError
                                        in (jsonResponse (httpStatus sanitized)
                                              (ErrorBody (message sanitized)),
                                            store', effects)))
                                 else
                                   (case gh_json githubResponse of
                                      Throws e \<Rightarrow> (internalError e, store', effects)
                                    | Returns j \<Rightarrow>
                                       (jsonResponse 200
                                          (PagesEnabledBody (html_url (asPagesInfo j))
                                             (pages_status (asPagesInfo j))
                                             (source (asPagesInfo j))),
                                        store', effects)))))))"

text \<open>
  \<^verbatim>\<open>enable-github-pages\<close> (the second handler in \<^verbatim>\<open>list-pages-sites/index.ts\<close>): the POST
  that writes the Pages configuration.
\<close>

definition enablePagesRequest :: "string \<Rightarrow> string \<Rightarrow> string \<Rightarrow> string \<Rightarrow> string \<Rightarrow> ghRequest" where
  "enablePagesRequest ownerName repoName branchName folder token =
     \<lparr>req_method = ''POST'',
      req_url = pagesUrl ownerName repoName,
      req_token = token,
      req_source = Some (branchName, folder)\<rparr>"

definition enableGithubPages ::
  "enableParams request \<Rightarrow> requestCounts \<Rightarrow> response \<times> requestCounts \<times> effect list" where
  "enableGithubPages req store =
     (if http_method req = ''OPTIONS'' then (jsonResponse 200 NoBody, store, [])
      else case parsed req of
        Throws e \<Rightarrow> (internalError e, store, [])
      | Returns (Invalid details) \<Rightarrow> (jsonResponse 400 (InvalidInputBody details), store, [])
      | Returns (Valid d) \<Rightarrow>
         (case user req of
            Throws e \<Rightarrow> (internalError e, store, [])
          | Returns None \<Rightarrow> (jsonResponse 401 (ErrorBody ''Unauthorized''), store, [])
          | Returns (Some uid) \<Rightarrow>
             (let (rl, store') = checkRateLimit store (clock req) uid DEFAULT_RATE_LIMIT
              in if \<not> allowed rl then (rateLimitExceeded rl, store', [RateCheck uid])
                 else case profile req of
                   Throws e \<Rightarrow> (internalError e, store', [RateCheck uid])
                 | Returns p \<Rightarrow>
                    (case accountName p of
                       None \<Rightarrow>
                         (jsonResponse 403 (ErrorBody ''GitHub profile not found''),
                          store', [RateCheck uid])
                     | Some username \<Rightarrow>
                        if owner d \<noteq> username then
                          (jsonResponse 403
                             (ErrorBody ''Unauthorized: can only access your own repositories''),
                           store', [RateCheck uid])
                        else
                          (let sent = enablePagesRequest (owner d) (repo d) (branch d) (path d)
                                        (provider_token d);
                               effects = [RateCheck uid, Fetch sent]
                           in case github req sent of
                                Throws e \<Rightarrow> (internalError e, store', effects)
                              | Returns githubResponse \<Rightarrow>
                                 if \<not> ok githubResponse then
                                   (case gh_text githubResponse of
                                      Throws e \<Rightarrow> (internalError e, store', effects)
                                    | Returns rawError \<Rightarrow>
                                       (let sanitized =
                                              sanitizeGitHubError (gh_status githubResponse) rawError
                                        in (jsonResponse (httpStatus sanitized)
                                              (ErrorBody (message sanitized)),
                                            store', effects)))
                                 else
                                   (case gh_json githubResponse of
                                      Throws e \<Rightarrow> (internalError e, store', effects)
                                    | Returns j \<Rightarrow>
                                       (jsonResponse 200
                                          (EnableSuccessBody (html_url (asPagesInfo j))
                                             (pages_status (asPagesInfo j))
                                             ''GitHub Pages has been enabled successfully!''),
                                        store', effects)))))))"

text \<open>The upstream requests among the effects of a run.\<close>

definition fetches :: "effect list \<Rightarrow> ghRequest list" where
  "fetches effects = concat (map (\<lambda>e. case e of Fetch q \<Rightarrow> [q] | RateCheck u \<Rightarrow> []) effects)"

definition rateChecks :: "effect list \<Rightarrow> string list" where
  "rateChecks effects = concat (map (\<lambda>e. case e of RateCheck u \<Rightarrow> [u] | Fetch q \<Rightarrow> []) effects)"
section \<open>The scan as the spec describes it\<close>

text \<open>
  The spec's Collect and Return steps (section 4.4), in its words: repositories whose
  probe result is Disabled are dropped, those whose result is ProbeError are dropped, an
  Enabled result is projected into a summary, and the summaries are returned in the order
  the repositories were listed.
\<close>

definition isEnabled :: "probeResult \<Rightarrow> bool" where
  "isEnabled p = (case p of Enabled i \<Rightarrow> True | Disabled \<Rightarrow> False | ProbeError \<Rightarrow> False)"

definition enabledSummary ::
  "(ghRequest \<Rightarrow> ghResponse outcome) \<Rightarrow> string \<Rightarrow> string \<Rightarrow> repoEntry \<Rightarrow> PagesSite option" where
  "enabledSummary gh username token r =
     (case probe gh username (repo_name r) token of
        Disabled \<Rightarrow> None
      | ProbeError \<Rightarrow> None
      | Enabled i \<Rightarrow> Some (toPagesSite username (repo_name r) i))"

definition collectSites ::
  "(ghRequest \<Rightarrow> ghResponse outcome) \<Rightarrow> string \<Rightarrow> string \<Rightarrow> repoEntry list \<Rightarrow> PagesSite list" where
  "collectSites gh username token repos = List.map_filter (enabledSummary gh username token) repos"

section \<open>Example inputs\<close>

text \<open>A map in which the window of the identity \<open>user-alice\<close> is used up and runs until time 1000.\<close>

definition exampleCounts :: requestCounts where
  "exampleCounts = [''user-alice'' \<mapsto> \<lparr>count = 100, resetAt = 1000\<rparr>]"

text \<open>
  The scenario of the spec: \<open>alice\<close> owns \<open>blog\<close> (Pages enabled from branch
  \<open>gh-pages\<close>, path \<open>/\<close>), \<open>tools\<close> (no Pages configuration) and \<open>secret\<close> (the probe
  times out), and here also \<open>legacy\<close>, whose probe the upstream answers with 500.
\<close>

definition blogInfo :: pagesInfo where
  "blogInfo =
     \<lparr>html_url = Some ''https://alice.github.io/blog/'',
      pages_status = Some ''built'',
      source = Some \<lparr>source_branch = Some ''gh-pages'', source_path = Some ''/''\<rparr>,
      built_at = None,
      updated_at = None\<rparr>"

definition aliceRepos :: "repoEntry list" where
  "aliceRepos =
     [\<lparr>repo_name = ''blog''\<rparr>, \<lparr>repo_name = ''tools''\<rparr>,
      \<lparr>repo_name = ''secret''\<rparr>, \<lparr>repo_name = ''legacy''\<rparr>]"

definition aliceGithub :: "ghRequest \<Rightarrow> ghResponse outcome" where
  "aliceGithub q =
     (if req_url q = ''https://api.github.com/user/repos?per_page=100&affiliation=owner'' then
        Returns \<lparr>gh_status = 200, gh_text = Returns ''[]'', gh_json = Returns (RepoList aliceRepos)\<rparr>
      else if req_url q = ''https://api.github.com/repos/alice/blog/pages'' then
        Returns \<lparr>gh_status = 200, gh_text = Returns ''{}'', gh_json = Returns (PagesInfo blogInfo)\<rparr>
      else if req_url q = ''https://api.github.com/repos/alice/tools/pages'' then
        Returns \<lparr>gh_status = 404, gh_text = Returns ''Not Found'', gh_json = Throws ''SyntaxError''\<rparr>
      else if req_url q = ''https://api.github.com/repos/alice/legacy/pages'' then
        Returns \<lparr>gh_status = 500, gh_text = Returns ''Server Error'', gh_json = Throws ''SyntaxError''\<rparr>
      else Throws ''timed out'')"

definition aliceScan :: "tokenParams request" where
  "aliceScan =
     \<lparr>http_method = ''POST'',
      parsed = Returns (Valid \<lparr>provider_token = ''gho_alice''\<rparr>),
      user = Returns (Some ''user-alice''),
      clock = 0,
      profile = Returns (Some \<lparr>github_username = Some ''alice''\<rparr>),
      github = aliceGithub\<rparr>"

text \<open>An upstream that answers every request with 500, and a single-repository request for \<open>tools\<close>.\<close>

definition failingGithub :: "ghRequest \<Rightarrow> ghResponse outcome" where
  "failingGithub q =
     Returns \<lparr>gh_status = 500, gh_text = Returns ''upstream stack trace'',
              gh_json = Throws ''SyntaxError''\<rparr>"

definition failingScan :: "tokenParams request" where
  "failingScan = aliceScan\<lparr>github := failingGithub\<rparr>"

definition toolsInfoRequest :: "repoParams request" where
  "toolsInfoRequest =
     \<lparr>http_method = ''POST'',
      parsed = Returns (Valid \<lparr>provider_token = ''gho_alice'', owner = ''alice'', repo = ''tools''\<rparr>),
      user = Returns (Some ''user-alice''),
      clock = 0,
      profile = Returns (Some \<lparr>github_username = Some ''alice''\<rparr>),
      github = aliceGithub\<rparr>"

text \<open>
  Requests of the identity whose account is \<open>alice\<close> that name \<open>bob\<close> as the owner.
\<close>

definition crossAccountParams :: enableParams where
  "crossAccountParams =
     \<lparr>provider_token = ''gho_alice'', owner = ''bob'', repo = ''site'',
      branch = ''main'', path = ''/''\<rparr>"

definition crossAccountInfo :: "repoParams request" where
  "crossAccountInfo =
     \<lparr>http_method = ''POST'',
      parsed = Returns (Valid \<lparr>provider_token = ''gho_alice'', owner = ''bob'', repo = ''site''\<rparr>),
      user = Returns (Some ''user-alice''),
      clock = 0,
      profile = Returns (Some \<lparr>github_username = Some ''alice''\<rparr>),
      github = aliceGithub\<rparr>"

definition crossAccountEnable :: "enableParams request" where
  "crossAccountEnable =
     \<lparr>http_method = ''POST'',
      parsed = Returns (Valid crossAccountParams),
      user = Returns (Some ''user-alice''),
      clock = 0,
      profile = Returns (Some \<lparr>github_username = Some ''alice''\<rparr>),
      github = aliceGithub\<rparr>"

text \<open>
  An account with 101 repositories, all with Pages enabled, behind an upstream that hands
  out the listing in pages of at most 100 entries: the first page on the URL the handler
  uses, the last repository on the second page.
\<close>

definition manyRepoName :: "nat \<Rightarrow> string" where
  "manyRepoName k = replicate (Suc k) CHR ''r''"

definition manyRepos :: "nat \<Rightarrow> nat \<Rightarrow> repoEntry list" where
  "manyRepos lo hi = map (\<lambda>k. \<lparr>repo_name = manyRepoName k\<rparr>) [lo..<hi]"

definition pagedGithub :: "ghRequest \<Rightarrow> ghResponse outcome" where
  "pagedGithub q =
     (if req_url q = ''https://api.github.com/user/repos?per_page=100&affiliation=owner'' then
        Returns \<lparr>gh_status = 200, gh_text = Returns ''[]'',
                 gh_json = Returns (RepoList (manyRepos 0 100))\<rparr>
      else if req_url q = ''https://api.github.com/user/repos?per_page=100&affiliation=owner&page=2'' then
        Returns \<lparr>gh_status = 200, gh_text = Returns ''[]'',
                 gh_json = Returns (RepoList (manyRepos 100 101))\<rparr>
      else Returns \<lparr>gh_status = 200, gh_text = Returns ''{}'', gh_json = Returns (PagesInfo blogInfo)\<rparr>)"

definition pagedScan :: "tokenParams request" where
  "pagedScan = aliceScan\<lparr>github := pagedGithub\<rparr>"
section \<open>Properties of the rate limiter\<close>

lemma checkRateLimit_other:
  "v \<noteq> u \<Longrightarrow> snd (checkRateLimit store now u config) v = store v"
  by (simp add: checkRateLimit_def Let_def)

lemma checkRateLimit_live:
  assumes "store u = Some (d::userData)" and "now < resetAt d"
  shows "checkRateLimit store now u config =
           (\<lparr>allowed = (count d + 1 \<le> maxRequests config),
             remaining = max 0 (maxRequests config - (count d + 1)),
             windowResetAt = resetAt d\<rparr>,
            store(u \<mapsto> d\<lparr>count := count d + 1\<rparr>))"
  using assms by (simp add: checkRateLimit_def currentWindow_def Let_def)

lemma checkRateLimit_fresh:
  assumes "store u = None \<or> (\<exists>d::userData. store u = Some d \<and> resetAt d \<le> now)"
  shows "checkRateLimit store now u config =
           (\<lparr>allowed = (1 \<le> maxRequests config),
             remaining = max 0 (maxRequests config - 1),
             windowResetAt = now + windowMs config\<rparr>,
            store(u \<mapsto> \<lparr>count = 1, resetAt = now + windowMs config\<rparr>))"
  using assms by (auto simp add: checkRateLimit_def currentWindow_def Let_def)

text \<open>
  What a call returns depends on the caller's own entry only, and neither a call by
  another identity nor the cleanup touches a window that is still running. The runs of one
  identity considered below are therefore not disturbed by what happens in between.
\<close>

lemma checkRateLimit_local:
  "store u = store' u \<Longrightarrow>
     fst (checkRateLimit store now u config) = fst (checkRateLimit store' now u config)"
  by (simp add: checkRateLimit_def currentWindow_def Let_def)

lemma cleanupRateLimitStore_live:
  "store u = Some (d::userData) \<Longrightarrow> now < resetAt d \<Longrightarrow> cleanupRateLimitStore store now u = Some d"
  by (simp add: cleanupRateLimitStore_def)

lemma cleanupRateLimitStore_expired:
  "store u = Some (d::userData) \<Longrightarrow> resetAt d \<le> now \<Longrightarrow> cleanupRateLimitStore store now u = None"
  by (simp add: cleanupRateLimitStore_def)

text \<open>The invariant \<open>counted\<close> holds at the start and is kept by both operations.\<close>

lemma counted_empty: "counted Map.empty"
  by (simp add: counted_def)

lemma currentWindow_counted:
  "counted store \<Longrightarrow> 0 \<le> count (currentWindow store now u config)"
proof (cases "store u")
  case None
  then show ?thesis by (simp add: currentWindow_def)
next
  case (Some d)
  assume "counted store"
  with Some have "1 \<le> count d" unfolding counted_def by blast
  with Some show ?thesis by (simp add: currentWindow_def)
qed

lemma counted_checkRateLimit:
  "counted store \<Longrightarrow> counted (snd (checkRateLimit store now u config))"
  using currentWindow_counted [of store now u config]
  by (auto simp add: counted_def checkRateLimit_def Let_def)

lemma counted_cleanup:
  "counted store \<Longrightarrow> counted (cleanupRateLimitStore store now)"
  by (auto simp add: counted_def cleanupRateLimitStore_def split: option.splits if_splits)

lemma length_checkRateLimitSeq:
  "length (fst (checkRateLimitSeq store u config ts)) = length ts"
  by (induction ts arbitrary: store) (simp_all add: Let_def case_prod_beta)

text \<open>Calls inside a live window: the k-th of them sees the count raised by k.\<close>

lemma checkRateLimitSeq_live:
  assumes "store u = Some (d::userData)" and "\<forall>t\<in>set ts. t < resetAt d" and "i < length ts"
  shows "fst (checkRateLimitSeq store u config ts) ! i =
           \<lparr>allowed = (count d + int i + 1 \<le> maxRequests config),
            remaining = max 0 (maxRequests config - (count d + int i + 1)),
            windowResetAt = resetAt d\<rparr>"
  using assms
proof (induction ts arbitrary: store d i)
  case Nil
  then show ?case by simp
next
  case (Cons t ts)
  have live: "t < resetAt d" using Cons.prems(2) by simp
  have step: "checkRateLimit store t u config =
           (\<lparr>allowed = (count d + 1 \<le> maxRequests config),
             remaining = max 0 (maxRequests config - (count d + 1)),
             windowResetAt = resetAt d\<rparr>,
            store(u \<mapsto> d\<lparr>count := count d + 1\<rparr>))"
    using Cons.prems(1) live by (rule checkRateLimit_live)
  show ?case
  proof (cases i)
    case 0
    then show ?thesis by (simp add: step Let_def case_prod_beta)
  next
    case (Suc j)
    let ?store' = "store(u \<mapsto> d\<lparr>count := count d + 1\<rparr>)"
    have "fst (checkRateLimitSeq ?store' u config ts) ! j =
           \<lparr>allowed = (count (d\<lparr>count := count d + 1\<rparr>) + int j + 1 \<le> maxRequests config),
            remaining = max 0 (maxRequests config - (count (d\<lparr>count := count d + 1\<rparr>) + int j + 1)),
            windowResetAt = resetAt (d\<lparr>count := count d + 1\<rparr>)\<rparr>"
      using Cons.prems Suc by (intro Cons.IH) auto
    then show ?thesis using Suc by (simp add: step Let_def case_prod_beta add.commute add.left_commute)
  qed
qed


lemma checkRateLimit_entry:
  "snd (checkRateLimit store now u config) u =
     Some ((currentWindow store now u config)
             \<lparr>count := count (currentWindow store now u config) + 1\<rparr>)"
  by (simp add: checkRateLimit_def Let_def)

lemma checkRateLimit_result:
  "fst (checkRateLimit store now u config) =
     \<lparr>allowed = (count (currentWindow store now u config) + 1 \<le> maxRequests config),
      remaining = max 0 (maxRequests config - (count (currentWindow store now u config) + 1)),
      windowResetAt = resetAt (currentWindow store now u config)\<rparr>"
  by (simp add: checkRateLimit_def Let_def)

lemma checkRateLimitSeq_rejected:
  assumes "store u = Some (d::userData)" and "maxRequests config < count d"
    and "\<forall>t\<in>set ts. t < resetAt d"
  shows "\<forall>r\<in>set (fst (checkRateLimitSeq store u config ts)).
           \<not> allowed r \<and> remaining r = 0 \<and> windowResetAt r = resetAt d"
proof (intro ballI)
  fix r assume "r \<in> set (fst (checkRateLimitSeq store u config ts))"
  then obtain i where i: "i < length ts" and r: "r = fst (checkRateLimitSeq store u config ts) ! i"
    by (auto simp add: in_set_conv_nth length_checkRateLimitSeq)
  have "fst (checkRateLimitSeq store u config ts) ! i =
           \<lparr>allowed = (count d + int i + 1 \<le> maxRequests config),
            remaining = max 0 (maxRequests config - (count d + int i + 1)),
            windowResetAt = resetAt d\<rparr>"
    using assms(1,3) i by (rule checkRateLimitSeq_live)
  then show "\<not> allowed r \<and> remaining r = 0 \<and> windowResetAt r = resetAt d"
    using assms(2) r by simp
qed
text \<open>
  Claim C3. With the default configuration (100 requests per 60000 ms), 101 calls by one
  identity within one window (the calls after the first all come before the reset time
  that the first call reports) end with a rejected call: call 101 has \<open>allowed = False\<close>
  and \<open>remaining = 0\<close>. A call at or after the reset time of the stored window starts a
  fresh window with count 1: it is allowed, 99 requests remain, and the window runs for
  60000 ms from that call.
\<close>

theorem rate_limit_exhausted_then_fresh:
  "(counted store \<and> length ts = 100 \<and>
      (\<forall>t\<in>set ts. t < windowResetAt (fst (checkRateLimit store t0 u DEFAULT_RATE_LIMIT)))
     \<longrightarrow> (let rs = fst (checkRateLimitSeq store u DEFAULT_RATE_LIMIT (t0 # ts))
          in length rs = 101 \<and> \<not> allowed (rs ! 100) \<and> remaining (rs ! 100) = 0))
   \<and> (store u = Some d \<and> resetAt d \<le> now
     \<longrightarrow> checkRateLimit store now u DEFAULT_RATE_LIMIT =
           (\<lparr>allowed = True, remaining = 99, windowResetAt = now + 60000\<rparr>,
            store(u \<mapsto> \<lparr>count = 1, resetAt = now + 60000\<rparr>)))"
proof (intro conjI impI)
  assume h: "counted store \<and> length ts = 100 \<and>
      (\<forall>t\<in>set ts. t < windowResetAt (fst (checkRateLimit store t0 u DEFAULT_RATE_LIMIT)))"
  let ?cfg = DEFAULT_RATE_LIMIT
  let ?w = "currentWindow store t0 u ?cfg"
  let ?d = "?w\<lparr>count := count ?w + 1\<rparr>"
  let ?store0 = "snd (checkRateLimit store t0 u ?cfg)"
  have nonneg: "0 \<le> count ?w" using h by (simp add: currentWindow_counted)
  have entry: "?store0 u = Some ?d" by (rule checkRateLimit_entry)
  have before: "\<forall>t\<in>set ts. t < resetAt ?d" using h by (simp add: checkRateLimit_result)
  have "fst (checkRateLimitSeq ?store0 u ?cfg ts) ! 99 =
          \<lparr>allowed = (count ?d + int 99 + 1 \<le> maxRequests ?cfg),
           remaining = max 0 (maxRequests ?cfg - (count ?d + int 99 + 1)),
           windowResetAt = resetAt ?d\<rparr>"
    using entry before by (rule checkRateLimitSeq_live) (simp add: h)
  then have last: "\<not> allowed (fst (checkRateLimitSeq ?store0 u ?cfg ts) ! 99)
      \<and> remaining (fst (checkRateLimitSeq ?store0 u ?cfg ts) ! 99) = 0"
    using nonneg by (simp add: DEFAULT_RATE_LIMIT_def)
  have len: "length (fst (checkRateLimitSeq ?store0 u ?cfg ts)) = 100"
    using h by (simp add: length_checkRateLimitSeq)
  show "let rs = fst (checkRateLimitSeq store u ?cfg (t0 # ts))
        in length rs = 101 \<and> \<not> allowed (rs ! 100) \<and> remaining (rs ! 100) = 0"
    using last len by (simp add: Let_def case_prod_beta)
next
  assume "store u = Some d \<and> resetAt d \<le> now"
  then have "store u = None \<or> (\<exists>d::userData. store u = Some d \<and> resetAt d \<le> now)" by blast
  then show "checkRateLimit store now u DEFAULT_RATE_LIMIT =
           (\<lparr>allowed = True, remaining = 99, windowResetAt = now + 60000\<rparr>,
            store(u \<mapsto> \<lparr>count = 1, resetAt = now + 60000\<rparr>))"
    by (simp add: checkRateLimit_fresh DEFAULT_RATE_LIMIT_def)
qed

theorem rate_limit_exhausted_then_fresh_witness:
  "counted exampleCounts \<and> length (replicate 100 (500::int)) = 100 \<and>
   list_all (\<lambda>t. t < windowResetAt (fst (checkRateLimit exampleCounts 0 ''user-alice'' DEFAULT_RATE_LIMIT)))
     (replicate 100 500) \<and>
   (let rs = fst (checkRateLimitSeq exampleCounts ''user-alice'' DEFAULT_RATE_LIMIT (0 # replicate 100 500))
    in length rs = 101 \<and> \<not> allowed (rs ! 100) \<and> remaining (rs ! 100) = 0) \<and>
   exampleCounts ''user-alice'' = Some \<lparr>count = 100, resetAt = 1000\<rparr> \<and>
   resetAt \<lparr>count = 100, resetAt = 1000\<rparr> \<le> 1000 \<and>
   checkRateLimit exampleCounts 1000 ''user-alice'' DEFAULT_RATE_LIMIT =
     (\<lparr>allowed = True, remaining = 99, windowResetAt = 1000 + 60000\<rparr>,
      exampleCounts(''user-alice'' \<mapsto> \<lparr>count = 1, resetAt = 1000 + 60000\<rparr>))"
proof -
  have h1: "counted exampleCounts"
    by (simp add: counted_def exampleCounts_def)
  have h2: "\<forall>t\<in>set (replicate 100 (500::int)).
       t < windowResetAt (fst (checkRateLimit exampleCounts 0 ''user-alice'' DEFAULT_RATE_LIMIT))"
    by (simp add: checkRateLimit_result currentWindow_def exampleCounts_def)
  have h3: "exampleCounts ''user-alice'' = Some \<lparr>count = 100, resetAt = 1000\<rparr>"
    by (simp add: exampleCounts_def)
  show ?thesis
    using rate_limit_exhausted_then_fresh
      [of exampleCounts "replicate 100 500" 0 "''user-alice''" "\<lparr>count = 100, resetAt = 1000\<rparr>" 1000]
      h1 h2 h3
    by (simp add: list_all_iff)
qed
text \<open>
  Claim C8. Every call raises the count of the identity's window by one, whether the call
  is allowed or rejected (in a live window the stored count goes from \<open>c\<close> to \<open>c + 1\<close>).
  Hence once a call is rejected, every later call of that identity before the window's
  reset time is rejected too, with \<open>remaining = 0\<close> and the same reset time.
\<close>

theorem rejected_calls_consume_budget:
  "snd (checkRateLimit store now u config) u =
     Some ((currentWindow store now u config)
             \<lparr>count := count (currentWindow store now u config) + 1\<rparr>)
   \<and> (store u = Some d \<and> now < resetAt d
     \<longrightarrow> snd (checkRateLimit store now u config) u = Some (d\<lparr>count := count d + 1\<rparr>))
   \<and> (\<not> allowed (fst (checkRateLimit store now u config)) \<and>
      (\<forall>t\<in>set ts. t < windowResetAt (fst (checkRateLimit store now u config)))
     \<longrightarrow> (let rs = fst (checkRateLimitSeq (snd (checkRateLimit store now u config)) u config ts)
          in length rs = length ts \<and>
             (\<forall>r\<in>set rs. \<not> allowed r \<and> remaining r = 0 \<and>
                windowResetAt r = windowResetAt (fst (checkRateLimit store now u config)))))"
proof (intro conjI impI)
  show "snd (checkRateLimit store now u config) u =
     Some ((currentWindow store now u config)
             \<lparr>count := count (currentWindow store now u config) + 1\<rparr>)"
    by (rule checkRateLimit_entry)
next
  assume "store u = Some d \<and> now < resetAt d"
  then show "snd (checkRateLimit store now u config) u = Some (d\<lparr>count := count d + 1\<rparr>)"
    by (simp add: checkRateLimit_live)
next
  let ?w = "currentWindow store now u config"
  let ?d = "?w\<lparr>count := count ?w + 1\<rparr>"
  let ?store0 = "snd (checkRateLimit store now u config)"
  assume h: "\<not> allowed (fst (checkRateLimit store now u config)) \<and>
      (\<forall>t\<in>set ts. t < windowResetAt (fst (checkRateLimit store now u config)))"
  have entry: "?store0 u = Some ?d" by (rule checkRateLimit_entry)
  have over: "maxRequests config < count ?d" using h by (simp add: checkRateLimit_result)
  have before: "\<forall>t\<in>set ts. t < resetAt ?d" using h by (simp add: checkRateLimit_result)
  have "\<forall>r\<in>set (fst (checkRateLimitSeq ?store0 u config ts)).
           \<not> allowed r \<and> remaining r = 0 \<and> windowResetAt r = resetAt ?d"
    using entry over before by (rule checkRateLimitSeq_rejected)
  then show "let rs = fst (checkRateLimitSeq ?store0 u config ts)
          in length rs = length ts \<and>
             (\<forall>r\<in>set rs. \<not> allowed r \<and> remaining r = 0 \<and>
                windowResetAt r = windowResetAt (fst (checkRateLimit store now u config)))"
    by (simp add: Let_def length_checkRateLimitSeq checkRateLimit_result)
qed

theorem rejected_calls_consume_budget_witness:
  "exampleCounts ''user-alice'' = Some \<lparr>count = 100, resetAt = 1000\<rparr> \<and>
   (0::int) < resetAt \<lparr>count = 100, resetAt = 1000\<rparr> \<and>
   \<not> allowed (fst (checkRateLimit exampleCounts 0 ''user-alice'' DEFAULT_RATE_LIMIT)) \<and>
   list_all (\<lambda>t. t < windowResetAt (fst (checkRateLimit exampleCounts 0 ''user-alice'' DEFAULT_RATE_LIMIT)))
     [1, 2, 999] \<and>
   snd (checkRateLimit exampleCounts 0 ''user-alice'' DEFAULT_RATE_LIMIT) ''user-alice'' =
     Some \<lparr>count = 101, resetAt = 1000\<rparr> \<and>
   (let rs = fst (checkRateLimitSeq (snd (checkRateLimit exampleCounts 0 ''user-alice'' DEFAULT_RATE_LIMIT))
                    ''user-alice'' DEFAULT_RATE_LIMIT [1, 2, 999])
    in length rs = 3 \<and>
       (\<forall>r\<in>set rs. \<not> allowed r \<and> remaining r = 0 \<and> windowResetAt r = 1000))"
proof -
  note defs = checkRateLimit_def currentWindow_def exampleCounts_def DEFAULT_RATE_LIMIT_def Let_def
  have h1: "exampleCounts ''user-alice'' = Some \<lparr>count = 100, resetAt = 1000\<rparr>"
    by (simp add: exampleCounts_def)
  have h2: "\<not> allowed (fst (checkRateLimit exampleCounts 0 ''user-alice'' DEFAULT_RATE_LIMIT))"
    by (simp add: defs)
  have h3: "\<forall>t\<in>set [1, 2, 999].
       t < windowResetAt (fst (checkRateLimit exampleCounts 0 ''user-alice'' DEFAULT_RATE_LIMIT))"
    by (simp add: defs)
  have h4: "windowResetAt (fst (checkRateLimit exampleCounts 0 ''user-alice'' DEFAULT_RATE_LIMIT)) = 1000"
    by (simp add: defs)
  have h5: "snd (checkRateLimit exampleCounts 0 ''user-alice'' DEFAULT_RATE_LIMIT) ''user-alice'' =
     Some \<lparr>count = 101, resetAt = 1000\<rparr>"
    by (simp add: defs)
  from rejected_calls_consume_budget
      [of exampleCounts 0 "''user-alice''" DEFAULT_RATE_LIMIT "\<lparr>count = 100, resetAt = 1000\<rparr>" "[1, 2, 999]"]
    h2 h3
  have "let rs = fst (checkRateLimitSeq (snd (checkRateLimit exampleCounts 0 ''user-alice'' DEFAULT_RATE_LIMIT))
                    ''user-alice'' DEFAULT_RATE_LIMIT [1, 2, 999])
    in length rs = length [1, 2, 999::int] \<and>
       (\<forall>r\<in>set rs. \<not> allowed r \<and> remaining r = 0 \<and>
           windowResetAt r = windowResetAt (fst (checkRateLimit exampleCounts 0 ''user-alice'' DEFAULT_RATE_LIMIT)))"
    by blast
  then show ?thesis
    using h1 h2 h3 h5 unfolding h4 by (simp add: numeral_3_eq_3)
qed
section \<open>Properties of the fleet scan\<close>

lemma probeAll_sites:
  "fst (probeAll gh username token repos acc) =
     acc @ List.map_filter (enabledSummary gh username token) repos"
proof (induction repos arbitrary: acc)
  case Nil
  show ?case by (simp add: map_filter_simps)
next
  case (Cons r repos)
  show ?case
    by (cases "probe gh username (repo_name r) token")
       (simp_all add: Cons.IH Let_def case_prod_beta map_filter_simps enabledSummary_def)
qed

lemma probeAll_sent:
  "snd (probeAll gh username token repos acc) =
     map (\<lambda>r. pagesRequest username (repo_name r) token) repos"
  by (induction repos arbitrary: acc) (simp_all add: Let_def case_prod_beta)

lemma fetches_simps:
  "fetches [] = []"
  "fetches (RateCheck u # es) = fetches es"
  "fetches (Fetch q # es) = q # fetches es"
  "fetches (es @ es') = fetches es @ fetches es'"
  by (simp_all add: fetches_def)

lemma fetches_map_Fetch: "fetches (map Fetch qs) = qs"
  by (induction qs) (simp_all add: fetches_simps)

lemma rateChecks_simps:
  "rateChecks [] = []"
  "rateChecks (RateCheck u # es) = u # rateChecks es"
  "rateChecks (Fetch q # es) = rateChecks es"
  "rateChecks (es @ es') = rateChecks es @ rateChecks es'"
  by (simp_all add: rateChecks_def)

lemma rateChecks_map_Fetch: "rateChecks (map Fetch qs) = []"
  by (induction qs) (simp_all add: rateChecks_simps)

text \<open>The run of the fleet scan once the listing has arrived.\<close>

lemma listPagesSites_scan:
  assumes "http_method req \<noteq> ''OPTIONS''"
    and "parsed req = Returns (Valid d)"
    and "user req = Returns (Some uid)"
    and "allowed (fst (checkRateLimit store (clock req) uid DEFAULT_RATE_LIMIT))"
    and "profile req = Returns p"
    and "accountName p = Some username"
    and "github req (reposRequest (provider_token d)) = Returns reposResponse"
    and "ok reposResponse"
    and "gh_json reposResponse = Returns (RepoList repos)"
  shows "listPagesSites req store =
           (jsonResponse 200 (SitesBody (collectSites (github req) username (provider_token d) repos)),
            snd (checkRateLimit store (clock req) uid DEFAULT_RATE_LIMIT),
            [RateCheck uid, Fetch (reposRequest (provider_token d))] @
              map Fetch (map (\<lambda>r. pagesRequest username (repo_name r) (provider_token d)) repos))"
  using assms
  by (simp add: listPagesSites_def Let_def case_prod_beta collectSites_def
        probeAll_sites [where acc = "[]", simplified] probeAll_sent)

lemma probe_Enabled_iff:
  "probe gh username repoName token = Enabled i \<longleftrightarrow>
     (\<exists>r j. gh (pagesRequest username repoName token) = Returns r \<and> ok r \<and>
        gh_json r = Returns j \<and> i = asPagesInfo j)"
  by (auto simp add: probe_def ok_def split: outcome.splits)

lemma probe_Disabled_iff:
  "probe gh username repoName token = Disabled \<longleftrightarrow>
     (\<exists>r. gh (pagesRequest username repoName token) = Returns r \<and> gh_status r = 404)"
  by (auto simp add: probe_def ok_def split: outcome.splits)

lemma probe_ProbeError_iff:
  "probe gh username repoName token = ProbeError \<longleftrightarrow>
     (\<exists>e. gh (pagesRequest username repoName token) = Throws e) \<or>
     (\<exists>r. gh (pagesRequest username repoName token) = Returns r \<and> gh_status r \<noteq> 404 \<and>
        (\<not> ok r \<or> (\<exists>e. gh_json r = Throws e)))"
  by (auto simp add: probe_def ok_def split: outcome.splits)

lemma set_collectSites:
  "set (collectSites gh username token repos) =
     {toPagesSite username (repo_name r) i | r i.
        r \<in> set repos \<and> probe gh username (repo_name r) token = Enabled i}"
  by (induction repos)
     (auto simp add: collectSites_def map_filter_simps enabledSummary_def split: probeResult.splits)

lemma names_collectSites:
  "map site_repository (collectSites gh username token repos) =
     map repo_name (filter (\<lambda>r. isEnabled (probe gh username (repo_name r) token)) repos)"
  by (induction repos)
     (auto simp add: collectSites_def map_filter_simps enabledSummary_def isEnabled_def toPagesSite_def
        split: probeResult.splits)

lemma aliceScan_probes:
  "probe aliceGithub ''alice'' ''blog'' ''gho_alice'' = Enabled blogInfo"
  "probe aliceGithub ''alice'' ''tools'' ''gho_alice'' = Disabled"
  "probe aliceGithub ''alice'' ''secret'' ''gho_alice'' = ProbeError"
  "probe aliceGithub ''alice'' ''legacy'' ''gho_alice'' = ProbeError"
  by (simp_all add: probe_def pagesRequest_def pagesUrl_def aliceGithub_def ok_def asPagesInfo_def)

lemma aliceScan_reaches:
  "http_method aliceScan \<noteq> ''OPTIONS''"
  "parsed aliceScan = Returns (Valid \<lparr>provider_token = ''gho_alice''\<rparr>)"
  "user aliceScan = Returns (Some ''user-alice'')"
  "allowed (fst (checkRateLimit Map.empty (clock aliceScan) ''user-alice'' DEFAULT_RATE_LIMIT))"
  "profile aliceScan = Returns (Some \<lparr>github_username = Some ''alice''\<rparr>)"
  "accountName (Some \<lparr>github_username = Some ''alice''\<rparr>) = Some ''alice''"
  "github aliceScan (reposRequest (provider_token \<lparr>provider_token = ''gho_alice''\<rparr>)) =
     Returns \<lparr>gh_status = 200, gh_text = Returns ''[]'', gh_json = Returns (RepoList aliceRepos)\<rparr>"
  "ok \<lparr>gh_status = 200, gh_text = Returns ''[]'', gh_json = Returns (RepoList aliceRepos)\<rparr>"
  "gh_json \<lparr>gh_status = 200, gh_text = Returns ''[]'', gh_json = Returns (RepoList aliceRepos)\<rparr> =
     Returns (RepoList aliceRepos)"
  by (simp_all add: aliceScan_def aliceGithub_def reposRequest_def accountName_def ok_def
        checkRateLimit_def currentWindow_def DEFAULT_RATE_LIMIT_def Let_def)

lemma fetches_map_Fetch_comp: "fetches (map (Fetch \<circ> f) xs) = map f xs"
  by (induction xs) (simp_all add: fetches_simps)

text \<open>Every listed repository is probed exactly once, in listing order, after the one listing request.\<close>

lemma listPagesSites_fetches:
  assumes "http_method req \<noteq> ''OPTIONS''"
    and "parsed req = Returns (Valid d)"
    and "user req = Returns (Some uid)"
    and "allowed (fst (checkRateLimit store (clock req) uid DEFAULT_RATE_LIMIT))"
    and "profile req = Returns p"
    and "accountName p = Some username"
    and "github req (reposRequest (provider_token d)) = Returns reposResponse"
    and "ok reposResponse"
    and "gh_json reposResponse = Returns (RepoList repos)"
  shows "fetches (snd (snd (listPagesSites req store))) =
           reposRequest (provider_token d) #
             map (\<lambda>r. pagesRequest username (repo_name r) (provider_token d)) repos"
  using listPagesSites_scan [OF assms] by (simp add: fetches_simps fetches_map_Fetch_comp)

lemma pagesRequest_inject:
  "pagesRequest username n token = pagesRequest username n' token \<longleftrightarrow> n = n'"
  by (simp add: pagesRequest_def pagesUrl_def)

text \<open>
  Claim C1. In a scan that reaches the listing, if a listed repository \<open>a\<close> probes as
  Enabled and a listed repository \<open>b\<close>'s probe fails (the fetch rejects, the upstream
  answers with a status outside 200 to 299 other than 404, or the body cannot be parsed),
  the handler answers 200 with a list of sites that holds the summary of \<open>a\<close> and no
  entry for \<open>b\<close>.
\<close>

theorem fleet_scan_isolates_probe_failures:
  assumes "http_method req \<noteq> ''OPTIONS''"
    and "parsed req = Returns (Valid d)"
    and "user req = Returns (Some uid)"
    and "allowed (fst (checkRateLimit store (clock req) uid DEFAULT_RATE_LIMIT))"
    and "profile req = Returns p"
    and "accountName p = Some username"
    and "github req (reposRequest (provider_token d)) = Returns reposResponse"
    and "ok reposResponse"
    and "gh_json reposResponse = Returns (RepoList repos)"
    and "a \<in> set repos"
    and "probe (github req) username (repo_name a) (provider_token d) = Enabled i"
    and "b \<in> set repos"
    and "probe (github req) username (repo_name b) (provider_token d) = ProbeError"
  shows "\<exists>sites. fst (listPagesSites req store) = jsonResponse 200 (SitesBody sites) \<and>
           toPagesSite username (repo_name a) i \<in> set sites \<and>
           (\<forall>s\<in>set sites. site_repository s \<noteq> repo_name b)"
proof -
  let ?sites = "collectSites (github req) username (provider_token d) repos"
  have run: "fst (listPagesSites req store) = jsonResponse 200 (SitesBody ?sites)"
    using listPagesSites_scan [OF assms(1-9)] by simp
  have has_a: "toPagesSite username (repo_name a) i \<in> set ?sites"
    using assms(10,11) by (auto simp add: set_collectSites)
  have no_b: "\<forall>s\<in>set ?sites. site_repository s \<noteq> repo_name b"
  proof
    fix s assume "s \<in> set ?sites"
    then have "\<exists>(r::repoEntry) j. probe (github req) username (repo_name r) (provider_token d) = Enabled j \<and>
        s = toPagesSite username (repo_name r) j"
      by (auto simp add: set_collectSites)
    then obtain r :: repoEntry and j where "s = toPagesSite username (repo_name r) j"
      and "probe (github req) username (repo_name r) (provider_token d) = Enabled j"
      by blast
    then show "site_repository s \<noteq> repo_name b"
      using assms(13) by (auto simp add: toPagesSite_def)
  qed
  from run has_a no_b show ?thesis by blast
qed

theorem fleet_scan_isolates_probe_failures_witness:
  "\<lparr>repo_name = ''blog''\<rparr> \<in> set aliceRepos \<and>
   probe (github aliceScan) ''alice'' ''blog'' ''gho_alice'' = Enabled blogInfo \<and>
   \<lparr>repo_name = ''secret''\<rparr> \<in> set aliceRepos \<and>
   probe (github aliceScan) ''alice'' ''secret'' ''gho_alice'' = ProbeError \<and>
   (\<exists>sites. fst (listPagesSites aliceScan Map.empty) = jsonResponse 200 (SitesBody sites) \<and>
      toPagesSite ''alice'' ''blog'' blogInfo \<in> set sites \<and>
      (\<forall>s\<in>set sites. site_repository s \<noteq> ''secret''))"
proof -
  have a: "\<lparr>repo_name = ''blog''\<rparr> \<in> set aliceRepos"
    and b: "\<lparr>repo_name = ''secret''\<rparr> \<in> set aliceRepos"
    by (simp_all add: aliceRepos_def)
  have gh: "github aliceScan = aliceGithub" by (simp add: aliceScan_def)
  have pa: "probe (github aliceScan) ''alice'' (repo_name \<lparr>repo_name = ''blog''\<rparr>)
              (provider_token \<lparr>provider_token = ''gho_alice''\<rparr>) = Enabled blogInfo"
    and pb: "probe (github aliceScan) ''alice'' (repo_name \<lparr>repo_name = ''secret''\<rparr>)
              (provider_token \<lparr>provider_token = ''gho_alice''\<rparr>) = ProbeError"
    by (simp_all add: gh aliceScan_probes)
  from fleet_scan_isolates_probe_failures [OF aliceScan_reaches a pa b pb]
  show ?thesis using a b pa pb by simp
qed

lemma subseq_names_collectSites:
  "subseq (map site_repository (collectSites gh username token repos)) (map repo_name repos)"
  by (simp add: names_collectSites subseq_map)

text \<open>
  Claim C9. The sites returned by a scan are the summaries of the listed repositories whose
  probe is Enabled, in the order of the listing: the names of the sites are the names of
  the listing with the repositories that are not Enabled filtered out, hence a subsequence
  of the listing's names, and a repository whose probe is Disabled (upstream 404) has no
  site in the result.
\<close>

theorem scan_result_in_listing_order:
  assumes "http_method req \<noteq> ''OPTIONS''"
    and "parsed req = Returns (Valid d)"
    and "user req = Returns (Some uid)"
    and "allowed (fst (checkRateLimit store (clock req) uid DEFAULT_RATE_LIMIT))"
    and "profile req = Returns p"
    and "accountName p = Some username"
    and "github req (reposRequest (provider_token d)) = Returns reposResponse"
    and "ok reposResponse"
    and "gh_json reposResponse = Returns (RepoList repos)"
  shows "fst (listPagesSites req store) =
           jsonResponse 200 (SitesBody (collectSites (github req) username (provider_token d) repos)) \<and>
         map site_repository (collectSites (github req) username (provider_token d) repos) =
           map repo_name
             (filter (\<lambda>r. isEnabled (probe (github req) username (repo_name r) (provider_token d)))
                repos) \<and>
         subseq (map site_repository (collectSites (github req) username (provider_token d) repos))
           (map repo_name repos) \<and>
         (\<forall>r\<in>set repos. probe (github req) username (repo_name r) (provider_token d) = Disabled
            \<longrightarrow> repo_name r \<notin>
                  set (map site_repository
                         (collectSites (github req) username (provider_token d) repos)))"
proof (intro conjI ballI impI)
  show "fst (listPagesSites req store) =
           jsonResponse 200 (SitesBody (collectSites (github req) username (provider_token d) repos))"
    using listPagesSites_scan [OF assms] by simp
next
  show "map site_repository (collectSites (github req) username (provider_token d) repos) =
           map repo_name
             (filter (\<lambda>r. isEnabled (probe (github req) username (repo_name r) (provider_token d)))
                repos)"
    by (rule names_collectSites)
next
  show "subseq (map site_repository (collectSites (github req) username (provider_token d) repos))
           (map repo_name repos)"
    by (rule subseq_names_collectSites)
next
  fix r :: repoEntry
  assume "r \<in> set repos"
    and dis: "probe (github req) username (repo_name r) (provider_token d) = Disabled"
  show "repo_name r \<notin>
          set (map site_repository (collectSites (github req) username (provider_token d) repos))"
  proof
    assume "repo_name r \<in>
          set (map site_repository (collectSites (github req) username (provider_token d) repos))"
    then obtain r' :: repoEntry where "repo_name r' = repo_name r"
      and "isEnabled (probe (github req) username (repo_name r') (provider_token d))"
      by (auto simp add: names_collectSites)
    with dis show False by (simp add: isEnabled_def)
  qed
qed

lemma collectSites_aliceRepos:
  "collectSites aliceGithub ''alice'' ''gho_alice'' aliceRepos = [toPagesSite ''alice'' ''blog'' blogInfo]"
  by (simp add: collectSites_def aliceRepos_def map_filter_simps enabledSummary_def aliceScan_probes)

theorem scan_result_in_listing_order_witness:
  "fst (listPagesSites aliceScan Map.empty) =
     jsonResponse 200 (SitesBody [toPagesSite ''alice'' ''blog'' blogInfo]) \<and>
   map site_repository [toPagesSite ''alice'' ''blog'' blogInfo] = [''blog''] \<and>
   map repo_name aliceRepos = [''blog'', ''tools'', ''secret'', ''legacy''] \<and>
   probe aliceGithub ''alice'' ''tools'' ''gho_alice'' = Disabled \<and>
   ''tools'' \<notin> set (map site_repository [toPagesSite ''alice'' ''blog'' blogInfo])"
proof -
  have gh: "github aliceScan = aliceGithub" by (simp add: aliceScan_def)
  from scan_result_in_listing_order [OF aliceScan_reaches]
  have run: "fst (listPagesSites aliceScan Map.empty) =
     jsonResponse 200 (SitesBody [toPagesSite ''alice'' ''blog'' blogInfo])"
    by (simp add: gh collectSites_aliceRepos)
  have rest: "map site_repository [toPagesSite ''alice'' ''blog'' blogInfo] = [''blog'']"
    "map repo_name aliceRepos = [''blog'', ''tools'', ''secret'', ''legacy'']"
    "probe aliceGithub ''alice'' ''tools'' ''gho_alice'' = Disabled"
    "''tools'' \<notin> set (map site_repository [toPagesSite ''alice'' ''blog'' blogInfo])"
    by (simp_all add: aliceScan_probes toPagesSite_def aliceRepos_def)
  from run rest show ?thesis by (intro conjI)
qed

text \<open>
  Claim C5. When the upstream answers the listing request with a status outside 200 to
  299, the handler replies with the sanitized error (or, should reading the error body
  fail, with the generic internal error), the status of the reply is an error status, and
  the listing request is the only upstream request of the run: no repository is probed.
\<close>

theorem listing_failure_is_fatal:
  assumes "http_method req \<noteq> ''OPTIONS''"
    and "parsed req = Returns (Valid d)"
    and "user req = Returns (Some uid)"
    and "allowed (fst (checkRateLimit store (clock req) uid DEFAULT_RATE_LIMIT))"
    and "profile req = Returns p"
    and "accountName p = Some username"
    and "github req (reposRequest (provider_token d)) = Returns reposResponse"
    and "\<not> ok reposResponse"
  shows "fst (listPagesSites req store) =
           (case gh_text reposResponse of
              Returns rawError \<Rightarrow>
                jsonResponse (httpStatus (sanitizeGitHubError (gh_status reposResponse) rawError))
                  (ErrorBody (message (sanitizeGitHubError (gh_status reposResponse) rawError)))
            | Throws e \<Rightarrow> internalError e) \<and>
         400 \<le> status (fst (listPagesSites req store)) \<and>
         fetches (snd (snd (listPagesSites req store))) = [reposRequest (provider_token d)]"
  using assms
  by (simp add: listPagesSites_def Let_def case_prod_beta fetches_simps internalError_def
        jsonResponse_def sanitizeGitHubError_def split: outcome.splits)

theorem listing_failure_is_fatal_witness:
  "\<not> ok \<lparr>gh_status = 500, gh_text = Returns ''upstream stack trace'',
          gh_json = Throws ''SyntaxError''\<rparr> \<and>
   fst (listPagesSites failingScan Map.empty) = jsonResponse 502 (ErrorBody ''upstream error'') \<and>
   fetches (snd (snd (listPagesSites failingScan Map.empty))) = [reposRequest ''gho_alice'']"
proof -
  have r: "http_method failingScan \<noteq> ''OPTIONS''"
    "parsed failingScan = Returns (Valid \<lparr>provider_token = ''gho_alice''\<rparr>)"
    "user failingScan = Returns (Some ''user-alice'')"
    "allowed (fst (checkRateLimit Map.empty (clock failingScan) ''user-alice'' DEFAULT_RATE_LIMIT))"
    "profile failingScan = Returns (Some \<lparr>github_username = Some ''alice''\<rparr>)"
    "accountName (Some \<lparr>github_username = Some ''alice''\<rparr>) = Some ''alice''"
    "github failingScan (reposRequest (provider_token \<lparr>provider_token = ''gho_alice''\<rparr>)) =
       Returns \<lparr>gh_status = 500, gh_text = Returns ''upstream stack trace'',
                gh_json = Throws ''SyntaxError''\<rparr>"
    "\<not> ok \<lparr>gh_status = 500, gh_text = Returns ''upstream stack trace'',
            gh_json = Throws ''SyntaxError''\<rparr>"
    by (simp_all add: failingScan_def failingGithub_def aliceScan_def accountName_def ok_def
          checkRateLimit_def currentWindow_def DEFAULT_RATE_LIMIT_def Let_def)
  from listing_failure_is_fatal [OF r] r(8)
  show ?thesis by (simp add: sanitizeGitHubError_def)
qed

text \<open>The part of a fleet-scan run that concerns the rate limiter, on every path past authentication.\<close>

lemma listPagesSites_store:
  assumes "http_method req \<noteq> ''OPTIONS''"
    and "parsed req = Returns (Valid d)"
    and "user req = Returns (Some uid)"
  shows "fst (snd (listPagesSites req store)) =
           snd (checkRateLimit store (clock req) uid DEFAULT_RATE_LIMIT)"
  using assms
  by (simp add: listPagesSites_def Let_def case_prod_beta
        split: outcome.splits option.splits ghJson.splits)

lemma listPagesSites_rateChecks:
  assumes "http_method req \<noteq> ''OPTIONS''"
    and "parsed req = Returns (Valid d)"
    and "user req = Returns (Some uid)"
  shows "rateChecks (snd (snd (listPagesSites req store))) = [uid]"
  using assms
  by (simp add: listPagesSites_def Let_def case_prod_beta rateChecks_simps rateChecks_map_Fetch
        split: outcome.splits option.splits ghJson.splits)

text \<open>
  Claim C10. A fleet-scan request that passes validation and authentication calls
  \<open>checkRateLimit\<close> exactly once, for the authenticated identity, whatever the listing and
  the probes return: the map afterwards is the map after that one call, so the count of
  the identity's current window is one higher and the entry of every other identity is
  as before.
\<close>

theorem scan_costs_one_rate_unit:
  assumes "http_method req \<noteq> ''OPTIONS''"
    and "parsed req = Returns (Valid d)"
    and "user req = Returns (Some uid)"
  shows "rateChecks (snd (snd (listPagesSites req store))) = [uid] \<and>
         fst (snd (listPagesSites req store)) =
           snd (checkRateLimit store (clock req) uid DEFAULT_RATE_LIMIT) \<and>
         fst (snd (listPagesSites req store)) uid =
           Some ((currentWindow store (clock req) uid DEFAULT_RATE_LIMIT)
                   \<lparr>count := count (currentWindow store (clock req) uid DEFAULT_RATE_LIMIT) + 1\<rparr>) \<and>
         (\<forall>v. v \<noteq> uid \<longrightarrow> fst (snd (listPagesSites req store)) v = store v)"
  using listPagesSites_store [OF assms, of store] listPagesSites_rateChecks [OF assms, of store]
  by (simp add: checkRateLimit_entry checkRateLimit_other)

theorem scan_costs_one_rate_unit_witness:
  "rateChecks (snd (snd (listPagesSites aliceScan Map.empty))) = [''user-alice''] \<and>
   fst (snd (listPagesSites aliceScan Map.empty)) ''user-alice'' =
     Some \<lparr>count = 1, resetAt = 60000\<rparr> \<and>
   fst (snd (listPagesSites aliceScan Map.empty)) ''user-bob'' = None \<and>
   length aliceRepos = 4"
proof -
  have c: "clock aliceScan = 0" by (simp add: aliceScan_def)
  have w: "currentWindow Map.empty 0 ''user-alice'' DEFAULT_RATE_LIMIT = \<lparr>count = 0, resetAt = 60000\<rparr>"
    by (simp add: currentWindow_def DEFAULT_RATE_LIMIT_def)
  from scan_costs_one_rate_unit [OF aliceScan_reaches(1-3), of Map.empty]
  show ?thesis by (simp add: c w aliceRepos_def checkRateLimit_entry checkRateLimit_other)
qed

lemma manyRepoName_inject: "manyRepoName k = manyRepoName k' \<longleftrightarrow> k = k'"
proof
  assume "manyRepoName k = manyRepoName k'"
  then have "length (manyRepoName k) = length (manyRepoName k')" by simp
  then show "k = k'" by (simp add: manyRepoName_def)
qed simp

lemma pagedGithub_probe:
  "probe pagedGithub ''alice'' (manyRepoName k) ''gho_alice'' = Enabled blogInfo"
  by (simp add: probe_def pagedGithub_def pagesRequest_def pagesUrl_def ok_def asPagesInfo_def)

lemma pagedScan_reaches:
  "http_method pagedScan \<noteq> ''OPTIONS''"
  "parsed pagedScan = Returns (Valid \<lparr>provider_token = ''gho_alice''\<rparr>)"
  "user pagedScan = Returns (Some ''user-alice'')"
  "allowed (fst (checkRateLimit Map.empty (clock pagedScan) ''user-alice'' DEFAULT_RATE_LIMIT))"
  "profile pagedScan = Returns (Some \<lparr>github_username = Some ''alice''\<rparr>)"
  "accountName (Some \<lparr>github_username = Some ''alice''\<rparr>) = Some ''alice''"
  "github pagedScan (reposRequest (provider_token \<lparr>provider_token = ''gho_alice''\<rparr>)) =
     Returns \<lparr>gh_status = 200, gh_text = Returns ''[]'',
              gh_json = Returns (RepoList (manyRepos 0 100))\<rparr>"
  "ok \<lparr>gh_status = 200, gh_text = Returns ''[]'', gh_json = Returns (RepoList (manyRepos 0 100))\<rparr>"
  "gh_json \<lparr>gh_status = 200, gh_text = Returns ''[]'',
            gh_json = Returns (RepoList (manyRepos 0 100))\<rparr> =
     Returns (RepoList (manyRepos 0 100))"
  by (simp_all add: pagedScan_def pagedGithub_def aliceScan_def reposRequest_def accountName_def ok_def
        checkRateLimit_def currentWindow_def DEFAULT_RATE_LIMIT_def Let_def)

text \<open>
  Claim C6, evaluated on the account with 101 repositories. The handler sends the one
  listing request and then one probe for each of the 100 repositories of the first page,
  in order. It never asks for the second page, so the repository listed there is not
  probed and has no site in the answer, although its probe would find Pages enabled.
\<close>

theorem repositories_past_first_page_unprobed:
  "github pagedScan
     \<lparr>req_method = ''GET'',
      req_url = ''https://api.github.com/user/repos?per_page=100&affiliation=owner&page=2'',
      req_token = ''gho_alice'', req_source = None\<rparr> =
     Returns \<lparr>gh_status = 200, gh_text = Returns ''[]'',
              gh_json = Returns (RepoList [\<lparr>repo_name = manyRepoName 100\<rparr>])\<rparr> \<and>
   probe (github pagedScan) ''alice'' (manyRepoName 100) ''gho_alice'' = Enabled blogInfo \<and>
   status (fst (listPagesSites pagedScan Map.empty)) = 200 \<and>
   fetches (snd (snd (listPagesSites pagedScan Map.empty))) =
     reposRequest ''gho_alice'' #
       map (\<lambda>r. pagesRequest ''alice'' (repo_name r) ''gho_alice'') (manyRepos 0 100) \<and>
   length (fetches (snd (snd (listPagesSites pagedScan Map.empty)))) = 101 \<and>
   pagesRequest ''alice'' (manyRepoName 100) ''gho_alice''
     \<notin> set (fetches (snd (snd (listPagesSites pagedScan Map.empty)))) \<and>
   (\<exists>sites. body (fst (listPagesSites pagedScan Map.empty)) = SitesBody sites \<and>
      length sites = 100 \<and> manyRepoName 100 \<notin> set (map site_repository sites))"
proof -
  have gh: "github pagedScan = pagedGithub" by (simp add: pagedScan_def)
  have page2: "github pagedScan
     \<lparr>req_method = ''GET'',
      req_url = ''https://api.github.com/user/repos?per_page=100&affiliation=owner&page=2'',
      req_token = ''gho_alice'', req_source = None\<rparr> =
     Returns \<lparr>gh_status = 200, gh_text = Returns ''[]'',
              gh_json = Returns (RepoList [\<lparr>repo_name = manyRepoName 100\<rparr>])\<rparr>"
    by (simp add: gh pagedGithub_def manyRepos_def)
  have probe100: "probe (github pagedScan) ''alice'' (manyRepoName 100) ''gho_alice'' = Enabled blogInfo"
    by (simp add: gh pagedGithub_probe)
  have run: "listPagesSites pagedScan Map.empty =
      (jsonResponse 200 (SitesBody (collectSites pagedGithub ''alice'' ''gho_alice'' (manyRepos 0 100))),
       snd (checkRateLimit Map.empty (clock pagedScan) ''user-alice'' DEFAULT_RATE_LIMIT),
       [RateCheck ''user-alice'', Fetch (reposRequest ''gho_alice'')] @
         map Fetch (map (\<lambda>r. pagesRequest ''alice'' (repo_name r) ''gho_alice'') (manyRepos 0 100)))"
    using listPagesSites_scan [OF pagedScan_reaches] by (simp add: gh)
  have st: "status (fst (listPagesSites pagedScan Map.empty)) = 200"
    by (simp add: run jsonResponse_def)
  have fs: "fetches (snd (snd (listPagesSites pagedScan Map.empty))) =
     reposRequest ''gho_alice'' #
       map (\<lambda>r. pagesRequest ''alice'' (repo_name r) ''gho_alice'') (manyRepos 0 100)"
    by (simp add: run fetches_simps fetches_map_Fetch_comp)
  have len: "length (fetches (snd (snd (listPagesSites pagedScan Map.empty)))) = 101"
    by (simp add: fs manyRepos_def)
  have notlisting: "pagesRequest ''alice'' (manyRepoName 100) ''gho_alice'' \<noteq> reposRequest ''gho_alice''"
    by (simp add: pagesRequest_def reposRequest_def pagesUrl_def)
  have unprobed: "pagesRequest ''alice'' (manyRepoName 100) ''gho_alice''
     \<notin> set (fetches (snd (snd (listPagesSites pagedScan Map.empty))))"
    using notlisting
    by (auto simp add: fs manyRepos_def pagesRequest_inject manyRepoName_inject)
  have names: "map site_repository (collectSites pagedGithub ''alice'' ''gho_alice'' (manyRepos 0 100)) =
      map repo_name (manyRepos 0 100)"
    by (simp add: names_collectSites pagedGithub_probe isEnabled_def manyRepos_def)
  have sites: "\<exists>sites. body (fst (listPagesSites pagedScan Map.empty)) = SitesBody sites \<and>
      length sites = 100 \<and> manyRepoName 100 \<notin> set (map site_repository sites)"
  proof (intro exI conjI)
    show "body (fst (listPagesSites pagedScan Map.empty)) =
        SitesBody (collectSites pagedGithub ''alice'' ''gho_alice'' (manyRepos 0 100))"
      by (simp add: run jsonResponse_def)
    have "length (map site_repository (collectSites pagedGithub ''alice'' ''gho_alice'' (manyRepos 0 100))) = 100"
      unfolding names by (simp add: manyRepos_def)
    then show "length (collectSites pagedGithub ''alice'' ''gho_alice'' (manyRepos 0 100)) = 100"
      by simp
    show "manyRepoName 100 \<notin>
        set (map site_repository (collectSites pagedGithub ''alice'' ''gho_alice'' (manyRepos 0 100)))"
      unfolding names by (auto simp add: manyRepos_def manyRepoName_inject)
  qed
  from page2 probe100 st fs len unprobed sites show ?thesis by (intro conjI)
qed

section \<open>Properties of the single-repository handlers\<close>

text \<open>
  Claim C2. A \<open>get-pages-info\<close> request that passes validation, authentication, the rate
  limit and the ownership check, and whose upstream reply has status 404, is answered with
  status 200 and the body \<open>{enabled: false}\<close>.
\<close>

theorem pages_not_configured_is_not_an_error:
  assumes "http_method req \<noteq> ''OPTIONS''"
    and "parsed req = Returns (Valid d)"
    and "user req = Returns (Some uid)"
    and "allowed (fst (checkRateLimit store (clock req) uid DEFAULT_RATE_LIMIT))"
    and "profile req = Returns p"
    and "accountName p = Some username"
    and "owner d = username"
    and "github req (pagesRequest (owner d) (repo d) (provider_token d)) = Returns githubResponse"
    and "gh_status githubResponse = 404"
  shows "fst (getPagesInfo req store) = jsonResponse 200 PagesDisabledBody \<and>
         status (fst (getPagesInfo req store)) = 200"
  using assms
  by (simp add: getPagesInfo_def Let_def case_prod_beta jsonResponse_def)

theorem pages_not_configured_is_not_an_error_witness:
  "gh_status \<lparr>gh_status = 404, gh_text = Returns ''Not Found'', gh_json = Throws ''SyntaxError''\<rparr> = 404 \<and>
   fst (getPagesInfo toolsInfoRequest Map.empty) = jsonResponse 200 PagesDisabledBody \<and>
   status (fst (getPagesInfo toolsInfoRequest Map.empty)) = 200"
proof -
  let ?d = "\<lparr>provider_token = ''gho_alice'', owner = ''alice'', repo = ''tools''\<rparr>"
  have r: "http_method toolsInfoRequest \<noteq> ''OPTIONS''"
    "parsed toolsInfoRequest = Returns (Valid ?d)"
    "user toolsInfoRequest = Returns (Some ''user-alice'')"
    "allowed (fst (checkRateLimit Map.empty (clock toolsInfoRequest) ''user-alice'' DEFAULT_RATE_LIMIT))"
    "profile toolsInfoRequest = Returns (Some \<lparr>github_username = Some ''alice''\<rparr>)"
    "accountName (Some \<lparr>github_username = Some ''alice''\<rparr>) = Some ''alice''"
    "owner ?d = ''alice''"
    "github toolsInfoRequest (pagesRequest (owner ?d) (repo ?d) (provider_token ?d)) =
       Returns \<lparr>gh_status = 404, gh_text = Returns ''Not Found'', gh_json = Throws ''SyntaxError''\<rparr>"
    "gh_status \<lparr>gh_status = 404, gh_text = Returns ''Not Found'', gh_json = Throws ''SyntaxError''\<rparr> = 404"
    by (simp_all add: toolsInfoRequest_def aliceGithub_def accountName_def pagesRequest_def pagesUrl_def
          checkRateLimit_def currentWindow_def DEFAULT_RATE_LIMIT_def Let_def)
  from pages_not_configured_is_not_an_error [OF r]
  show ?thesis by (simp add: jsonResponse_def)
qed

text \<open>
  The claim C4 as stated fails for an identity that is over its rate limit: the handlers
  check the rate limit before they look up the profile and compare the owner, so such a
  request is answered 429 and not 403.
\<close>

theorem cross_account_request_rate_limited:
  "parsed crossAccountInfo =
     Returns (Valid \<lparr>provider_token = ''gho_alice'', owner = ''bob'', repo = ''site''\<rparr>) \<and>
   user crossAccountInfo = Returns (Some ''user-alice'') \<and>
   profile crossAccountInfo = Returns (Some \<lparr>github_username = Some ''alice''\<rparr>) \<and>
   accountName (Some \<lparr>github_username = Some ''alice''\<rparr>) = Some ''alice'' \<and>
   owner \<lparr>provider_token = ''gho_alice'', owner = ''bob'', repo = ''site''\<rparr> \<noteq> ''alice'' \<and>
   status (fst (getPagesInfo crossAccountInfo exampleCounts)) = 429 \<and>
   status (fst (getPagesInfo crossAccountInfo exampleCounts)) \<noteq> 403"
  by (simp add: crossAccountInfo_def accountName_def getPagesInfo_def exampleCounts_def
        checkRateLimit_def currentWindow_def DEFAULT_RATE_LIMIT_def Let_def rateLimitExceeded_def)

lemma getPagesInfo_cross_account:
  assumes "parsed req = Returns (Valid d)"
    and "profile req = Returns p"
    and "accountName p = Some username"
    and "owner d \<noteq> username"
  shows "fetches (snd (snd (getPagesInfo req store))) = []"
  using assms
  by (simp add: getPagesInfo_def Let_def case_prod_beta fetches_simps split: outcome.splits option.splits)

lemma enableGithubPages_cross_account:
  assumes "parsed req = Returns (Valid d)"
    and "profile req = Returns p"
    and "accountName p = Some username"
    and "owner d \<noteq> username"
  shows "fetches (snd (snd (enableGithubPages req store))) = []"
  using assms
  by (simp add: enableGithubPages_def Let_def case_prod_beta fetches_simps split: outcome.splits option.splits)

text \<open>
  Claim C4, amended. A \<open>get-pages-info\<close> or \<open>enable-github-pages\<close> request whose owner
  differs from the account name in the identity's profile never leads to an upstream
  request; when it passes validation, authentication and the rate limit, the reply has
  status 403.
\<close>

theorem cross_account_requests_stopped_before_upstream:
  assumes "parsed req = Returns (Valid d)"
    and "profile req = Returns p"
    and "accountName p = Some username"
    and "owner d \<noteq> username"
    and "parsed req' = Returns (Valid d')"
    and "profile req' = Returns p'"
    and "accountName p' = Some username'"
    and "owner d' \<noteq> username'"
  shows "fetches (snd (snd (getPagesInfo req store))) = [] \<and>
         (http_method req \<noteq> ''OPTIONS'' \<and> user req = Returns (Some uid) \<and>
          allowed (fst (checkRateLimit store (clock req) uid DEFAULT_RATE_LIMIT))
            \<longrightarrow> status (fst (getPagesInfo req store)) = 403) \<and>
         fetches (snd (snd (enableGithubPages req' store'))) = [] \<and>
         (http_method req' \<noteq> ''OPTIONS'' \<and> user req' = Returns (Some uid') \<and>
          allowed (fst (checkRateLimit store' (clock req') uid' DEFAULT_RATE_LIMIT))
            \<longrightarrow> status (fst (enableGithubPages req' store')) = 403)"
proof (intro conjI impI)
  show "fetches (snd (snd (getPagesInfo req store))) = []"
    using assms(1-4) by (rule getPagesInfo_cross_account)
next
  show "fetches (snd (snd (enableGithubPages req' store'))) = []"
    using assms(5-8) by (rule enableGithubPages_cross_account)
next
  assume "http_method req \<noteq> ''OPTIONS'' \<and> user req = Returns (Some uid) \<and>
          allowed (fst (checkRateLimit store (clock req) uid DEFAULT_RATE_LIMIT))"
  then show "status (fst (getPagesInfo req store)) = 403"
    using assms(1-4) by (simp add: getPagesInfo_def Let_def case_prod_beta jsonResponse_def)
next
  assume "http_method req' \<noteq> ''OPTIONS'' \<and> user req' = Returns (Some uid') \<and>
          allowed (fst (checkRateLimit store' (clock req') uid' DEFAULT_RATE_LIMIT))"
  then show "status (fst (enableGithubPages req' store')) = 403"
    using assms(5-8) by (simp add: enableGithubPages_def Let_def case_prod_beta jsonResponse_def)
qed

theorem cross_account_requests_stopped_before_upstream_witness:
  "owner \<lparr>provider_token = ''gho_alice'', owner = ''bob'', repo = ''site''\<rparr> \<noteq> ''alice'' \<and>
   owner crossAccountParams \<noteq> ''alice'' \<and>
   allowed (fst (checkRateLimit Map.empty (clock crossAccountInfo) ''user-alice'' DEFAULT_RATE_LIMIT)) \<and>
   fetches (snd (snd (getPagesInfo crossAccountInfo Map.empty))) = [] \<and>
   status (fst (getPagesInfo crossAccountInfo Map.empty)) = 403 \<and>
   fetches (snd (snd (enableGithubPages crossAccountEnable Map.empty))) = [] \<and>
   status (fst (enableGithubPages crossAccountEnable Map.empty)) = 403"
proof -
  let ?d = "\<lparr>provider_token = ''gho_alice'', owner = ''bob'', repo = ''site''\<rparr>"
  have h: "parsed crossAccountInfo = Returns (Valid ?d)"
    "profile crossAccountInfo = Returns (Some \<lparr>github_username = Some ''alice''\<rparr>)"
    "accountName (Some \<lparr>github_username = Some ''alice''\<rparr>) = Some ''alice''"
    "owner ?d \<noteq> ''alice''"
    "parsed crossAccountEnable = Returns (Valid crossAccountParams)"
    "profile crossAccountEnable = Returns (Some \<lparr>github_username = Some ''alice''\<rparr>)"
    "accountName (Some \<lparr>github_username = Some ''alice''\<rparr>) = Some ''alice''"
    "owner crossAccountParams \<noteq> ''alice''"
    by (simp_all add: crossAccountInfo_def crossAccountEnable_def crossAccountParams_def accountName_def)
  have g: "http_method crossAccountInfo \<noteq> ''OPTIONS''"
    "user crossAccountInfo = Returns (Some ''user-alice'')"
    "allowed (fst (checkRateLimit Map.empty (clock crossAccountInfo) ''user-alice'' DEFAULT_RATE_LIMIT))"
    "http_method crossAccountEnable \<noteq> ''OPTIONS''"
    "user crossAccountEnable = Returns (Some ''user-alice'')"
    "allowed (fst (checkRateLimit Map.empty (clock crossAccountEnable) ''user-alice'' DEFAULT_RATE_LIMIT))"
    by (simp_all add: crossAccountInfo_def crossAccountEnable_def
          checkRateLimit_def currentWindow_def DEFAULT_RATE_LIMIT_def Let_def)
  from cross_account_requests_stopped_before_upstream
         [OF h, of Map.empty "''user-alice''" Map.empty "''user-alice''"] g h(4,8)
  show ?thesis by simp
qed

section \<open>Properties of the sanitizer\<close>

text \<open>
  Claim C7. For an upstream 404 the sanitizer yields outward status 404 with one fixed
  message; its result never depends on the raw body; 401 and 403 map to outward 403, 422
  to outward 400, 5xx and every unmapped status to outward 502; and the message is always
  one of four fixed texts.
\<close>

theorem sanitizer_is_generic:
  "sanitizeGitHubError 404 rawBody = \<lparr>httpStatus = 404, message = ''not found''\<rparr> \<and>
   sanitizeGitHubError upstreamStatus rawBody = sanitizeGitHubError upstreamStatus rawBody' \<and>
   httpStatus (sanitizeGitHubError 401 rawBody) = 403 \<and>
   httpStatus (sanitizeGitHubError 403 rawBody) = 403 \<and>
   httpStatus (sanitizeGitHubError 422 rawBody) = 400 \<and>
   (500 \<le> upstreamStatus \<and> upstreamStatus \<le> 599
      \<longrightarrow> httpStatus (sanitizeGitHubError upstreamStatus rawBody) = 502) \<and>
   (upstreamStatus \<noteq> 401 \<and> upstreamStatus \<noteq> 403 \<and> upstreamStatus \<noteq> 404 \<and> upstreamStatus \<noteq> 422
      \<longrightarrow> httpStatus (sanitizeGitHubError upstreamStatus rawBody) = 502) \<and>
   message (sanitizeGitHubError upstreamStatus rawBody) \<in>
     set [''insufficient permission'', ''not found'', ''invalid request'', ''upstream error'']"
  by (simp add: sanitizeGitHubError_def)

theorem sanitizer_is_generic_witness:
  "sanitizeGitHubError 404 ''secret upstream text'' = \<lparr>httpStatus = 404, message = ''not found''\<rparr> \<and>
   sanitizeGitHubError 500 ''secret upstream text'' = sanitizeGitHubError 500 ''another body'' \<and>
   (500::int) \<le> 500 \<and> (500::int) \<le> 599 \<and>
   httpStatus (sanitizeGitHubError 500 ''secret upstream text'') = 502"
  using sanitizer_is_generic [of "''secret upstream text''" 500 "''another body''"]
  by (simp add: sanitizeGitHubError_def)


end
